theory Spec2Isabelle
  imports Main "HOL-Library.Monad_Syntax"
begin

section \<open>Data model (types.ts)\<close>

text \<open>
  A preset of any category. The \<open>icon\<close> field of the source is a render node and
  carries no state; it is left out. The field \<open>id\<close> is written \<open>id_preset\<close>.
  A generic \<open>T extends Preset\<close> is \<open>'a Preset_scheme\<close>.
\<close>

record Preset =
  id_preset :: string
  name :: string
  description :: string

record CameraPreset = Preset +
  metadata :: string

type_synonym LightingPreset = CameraPreset
type_synonym MockupPreset = Preset
type_synonym ManipulationPreset = Preset
type_synonym PeopleRetouchPreset = Preset
type_synonym RetouchPreset = Preset
type_synonym IllustrationStylePreset = Preset

text \<open>The string unions of types.ts, one constructor for each literal.\<close>

datatype AspectRatio = ratio_4_5 | ratio_16_9
datatype AppMode = design_kit | creative_studio
datatype CreativeMode = illustrate | retouch
datatype RetouchSubMode = smart | environment
datatype LightDirection = LD_Auto | LD_Left | LD_Right | LD_Top | LD_Back
datatype WbAndGrade = WB_Auto | WB_Neutral | WB_Filmic | WB_Cinematic | WB_WarmInterior
  | WB_CoolNight | WB_Monochrome | WB_CrossProcess
datatype UpscaleTarget = target_hd | target_4k
datatype StyleVariety = normal | wide

record ExportSettings =
  aspectRatio :: AspectRatio
  transparent :: bool

text \<open>
  A generated image is \<open>{base64, mimeType}\<close>; an \<open>ImageFile\<close> has these two fields and
  the browser's \<open>File\<close> object, which is represented by a string (\<open>file_ref\<close>).
\<close>

record Image =
  base64 :: string
  mimeType :: string

record ImageFile = Image +
  file_ref :: string

record GenerationParams =
  cameraPresets :: "CameraPreset list"
  lightingPresets :: "LightingPreset list"
  mockupPreset :: "MockupPreset option"
  manipulationPresets :: "ManipulationPreset list"
  peopleRetouchPresets :: "PeopleRetouchPreset list"
  retouchPresets :: "RetouchPreset list"
  exportSettings :: ExportSettings
  customPrompt_param :: string

record RetouchOptions =
  smoothness :: int
  lightBalance :: int
  correctSkinTones :: bool
  sharpen :: bool
  removeBlemishes :: bool
  backgroundBlur :: int
  hdrEffect :: int
  vintageFade :: int
  glossySkin :: bool
  environmentHarmony :: bool
  lightDirection :: LightDirection
  keyFillRatio :: int
  shadowSoftness :: int
  wbAndGrade :: WbAndGrade
  artistCommand :: string

text \<open>The optional \<open>creativeSubMode?\<close> is an option; \<open>id\<close> is written \<open>id_item\<close>.\<close>

record HistoryItem =
  id_item :: string
  generated :: Image
  source :: ImageFile
  prompt :: string
  mode :: AppMode
  creativeSubMode :: "CreativeMode option"

record PromptSuggestion =
  title :: string
  prompt_text :: string

section \<open>Session state (the useState hooks of AppContent)\<close>

text \<open>
  One field for each state hook that a modelled handler reads or writes. A value of type
  \<open>T | null\<close> is an option; \<open>isUpscaling : false | UpscaleTarget\<close> is an option with
  \<open>None\<close> for \<open>false\<close>; \<open>Record<string, string[]>\<close> is a map.
\<close>

record session =
  appMode :: AppMode
  isOnline :: bool
  productImage :: "ImageFile option"
  referenceImage :: "ImageFile option"
  generatedImage :: "Image option"
  selectedCameras :: "CameraPreset list"
  selectedLightings :: "LightingPreset list"
  selectedMockups :: "MockupPreset list"
  selectedManipulations :: "ManipulationPreset list"
  selectedPeopleRetouches :: "PeopleRetouchPreset list"
  selectedRetouches :: "RetouchPreset list"
  dkExportSettings :: ExportSettings
  customPrompt :: string
  useMagicComposite :: bool
  isLoading :: bool
  isAnalyzing :: bool
  suggestedPresetIds :: "string \<rightharpoonup> string list"
  error :: "string option"
  isGeneratingDKPrompt :: bool
  suggestedDKPrompts :: "PromptSuggestion list option"
  isDKPromptModalOpen :: bool
  creativeMode :: CreativeMode
  isGeneratingCreative :: bool
  creativeError :: "string option"
  illustrationImage :: "ImageFile option"
  illustrationReferenceImage :: "ImageFile option"
  illustrationCustomPrompt :: string
  illustrationResultImage :: "Image option"
  isGeneratingIllustration :: bool
  selectedIllustrationStyle :: IllustrationStylePreset
  illustrationDetailFidelity :: int
  useIllustrationStylePreset :: bool
  generationStatusText :: string
  isVectorizing :: bool
  isIllustrationDownloadMenuOpen :: bool
  suggestedCreativePrompts :: "PromptSuggestion list option"
  isCreativePromptModalOpen :: bool
  isGeneratingPrompt :: bool
  personImage :: "ImageFile option"
  retouchResultImage :: "Image option"
  retouchSubMode :: RetouchSubMode
  retouchOptions :: RetouchOptions
  selectedEnvironment :: string
  generatedRetouchPrompts :: "string list option"
  isGeneratingRetouchPrompts :: bool
  promptStyleVariety :: StyleVariety
  syncPromptWithEnv :: bool
  generationHistory :: "HistoryItem list"
  isUpscaling :: "UpscaleTarget option"
  upscaleError :: "string option"
  isUpscaleMenuOpen :: bool

section \<open>Preset selection (createToggleHandler)\<close>

text \<open>
  The updater that \<open>createToggleHandler(setter, presets)(preset)\<close> hands to \<open>setter\<close>,
  as a function of the previous selection \<open>prev\<close>.
  \<open>presets.find(p => p.id === 'none')!\<close> is \<open>undefined\<close> when the table has no
  sentinel; the two branches that return \<open>[nonePreset]\<close> would then store an array
  holding \<open>undefined\<close>, which the element type excludes: the model returns \<open>None\<close>
  there. The other branches never read \<open>nonePreset\<close>.
\<close>

definition createToggleHandler ::
  "'a Preset_scheme list \<Rightarrow> 'a Preset_scheme \<Rightarrow> 'a Preset_scheme list
     \<Rightarrow> 'a Preset_scheme list option" where
  "createToggleHandler presets preset prev =
     (let isSelected = list_ex (\<lambda>p. id_preset p = id_preset preset) prev;
          nonePreset = find (\<lambda>p. id_preset p = ''none'') presets
      in if id_preset preset = ''none'' then map_option (\<lambda>n. [n]) nonePreset
         else if isSelected then
           (if length prev = 1 then map_option (\<lambda>n. [n]) nonePreset
            else Some (filter (\<lambda>p. id_preset p \<noteq> id_preset preset) prev))
         else Some (filter (\<lambda>p. id_preset p \<noteq> ''none'') prev @ [preset]))"

section \<open>The preset tables and the service boundary\<close>

text \<open>
  The preset tables of \<open>constants.ts\<close> are parameters of the model: the handlers read
  them, their contents are not part of the handlers.
\<close>

record constants =
  CAMERA_PRESETS :: "CameraPreset list"
  LIGHTING_PRESETS :: "LightingPreset list"
  MOCKUP_PRESETS :: "MockupPreset list"
  MANIPULATION_PRESETS :: "ManipulationPreset list"
  PEOPLE_RETOUCH_PRESETS :: "PeopleRetouchPreset list"
  RETOUCH_PRESETS :: "RetouchPreset list"
  ILLUSTRATION_STYLE_PRESETS :: "IllustrationStylePreset list"

text \<open>
  \<open>TABLE[0]\<close> is \<open>undefined\<close> on an empty table; a handler that would store it in a
  selection returns \<open>None\<close>.
\<close>

definition index0 :: "'a list \<Rightarrow> 'a option" where
  "index0 xs = (case xs of [] \<Rightarrow> None | x # _ \<Rightarrow> Some x)"

text \<open>
  An awaited call of \<open>services/geminiService\<close> either fulfils with a value or rejects;
  \<open>Rejected (Some m)\<close> is a thrown \<open>Error\<close> with message \<open>m\<close>, \<open>Rejected None\<close> any other
  thrown value. A result that may be \<open>null\<close> is an option. The services are a
  parameter of the model, and with them the clock: \<open>toISOString_now\<close> is what
  \<open>new Date().toISOString()\<close> gives when a handler stamps a history item.
\<close>

datatype 'r outcome = Fulfilled 'r | Rejected "string option"

record services =
  generateImage :: "ImageFile \<Rightarrow> ImageFile option \<Rightarrow> bool \<Rightarrow> GenerationParams
    \<Rightarrow> Image option outcome"
  analyzeForCompositeSuggestions :: "ImageFile \<Rightarrow> ImageFile
    \<Rightarrow> (string \<rightharpoonup> string list) outcome"
  performSmartRetouch :: "ImageFile \<Rightarrow> RetouchOptions \<Rightarrow> Image option outcome"
  generateEnvironment :: "ImageFile \<Rightarrow> string \<Rightarrow> RetouchOptions \<Rightarrow> Image option outcome"
  upscaleImage :: "Image \<Rightarrow> UpscaleTarget \<Rightarrow> Image option outcome"
  generateDesignKitPrompt :: "ImageFile \<Rightarrow> ImageFile option
    \<Rightarrow> PromptSuggestion list option outcome"
  generateIllustration :: "ImageFile \<Rightarrow> IllustrationStylePreset option \<Rightarrow> int \<Rightarrow> string
    \<Rightarrow> ImageFile option \<Rightarrow> Image option outcome"
  generateIllustrationPrompts :: "ImageFile \<Rightarrow> ImageFile option
    \<Rightarrow> PromptSuggestion list option outcome"
  generateRetouchPrompts :: "string \<Rightarrow> StyleVariety \<Rightarrow> bool \<Rightarrow> string list option outcome"
  vectorizeImage :: "Image \<Rightarrow> string option outcome"
  toISOString_now :: string

text \<open>
  What a handler does besides writing the session: the boundary calls it makes, in order,
  its \<open>console.error\<close> lines and the file it offers for download.
\<close>

datatype service_call = GenerateImage | AnalyzeForCompositeSuggestions | PerformSmartRetouch
  | GenerateEnvironment | UpscaleImage | GenerateDesignKitPrompt | GenerateIllustration
  | GenerateIllustrationPrompts | GenerateRetouchPrompts | VectorizeImage

datatype effect = Invoke service_call | ConsoleError | DownloadSvg string

text \<open>\<open>e instanceof Error ? e.message : fallback\<close>\<close>

definition message_or :: "string option \<Rightarrow> string \<Rightarrow> string" where
  "message_or e fallback = (case e of Some m \<Rightarrow> m | None \<Rightarrow> fallback)"

section \<open>Selection handlers\<close>

definition handleCameraToggle :: "constants \<Rightarrow> CameraPreset \<Rightarrow> session \<Rightarrow> session option" where
  "handleCameraToggle c preset s =
     map_option (\<lambda>sel. s\<lparr>selectedCameras := sel\<rparr>)
       (createToggleHandler (CAMERA_PRESETS c) preset (selectedCameras s))"

definition handleLightingToggle :: "constants \<Rightarrow> LightingPreset \<Rightarrow> session \<Rightarrow> session option" where
  "handleLightingToggle c preset s =
     map_option (\<lambda>sel. s\<lparr>selectedLightings := sel\<rparr>)
       (createToggleHandler (LIGHTING_PRESETS c) preset (selectedLightings s))"

definition handleManipulationToggle ::
  "constants \<Rightarrow> ManipulationPreset \<Rightarrow> session \<Rightarrow> session option" where
  "handleManipulationToggle c preset s =
     map_option (\<lambda>sel. s\<lparr>selectedManipulations := sel\<rparr>)
       (createToggleHandler (MANIPULATION_PRESETS c) preset (selectedManipulations s))"

definition handlePeopleRetouchToggle ::
  "constants \<Rightarrow> PeopleRetouchPreset \<Rightarrow> session \<Rightarrow> session option" where
  "handlePeopleRetouchToggle c preset s =
     map_option (\<lambda>sel. s\<lparr>selectedPeopleRetouches := sel\<rparr>)
       (createToggleHandler (PEOPLE_RETOUCH_PRESETS c) preset (selectedPeopleRetouches s))"

definition handleRetouchToggle :: "constants \<Rightarrow> RetouchPreset \<Rightarrow> session \<Rightarrow> session option" where
  "handleRetouchToggle c preset s =
     map_option (\<lambda>sel. s\<lparr>selectedRetouches := sel\<rparr>)
       (createToggleHandler (RETOUCH_PRESETS c) preset (selectedRetouches s))"

text \<open>
  The updater of \<open>handleMockupSelect\<close>:
  \<open>current[0]?.id === preset.id ? [MOCKUP_PRESETS[0]] : [preset]\<close>.
  On an empty \<open>current\<close> the left side is \<open>undefined\<close> and the test is false.
\<close>

definition mockupSelect :: "MockupPreset list \<Rightarrow> MockupPreset \<Rightarrow> MockupPreset list
    \<Rightarrow> MockupPreset list option" where
  "mockupSelect mockups preset current =
     (if (case current of [] \<Rightarrow> False | c0 # _ \<Rightarrow> id_preset c0 = id_preset preset)
      then map_option (\<lambda>m. [m]) (index0 mockups)
      else Some [preset])"

definition handleMockupSelect :: "constants \<Rightarrow> MockupPreset \<Rightarrow> session \<Rightarrow> session option" where
  "handleMockupSelect c preset s =
     map_option (\<lambda>sel. s\<lparr>selectedMockups := sel\<rparr>)
       (mockupSelect (MOCKUP_PRESETS c) preset (selectedMockups s))"

definition handleMagicCompositeToggle :: "constants \<Rightarrow> bool \<Rightarrow> session \<Rightarrow> session option" where
  "handleMagicCompositeToggle c enabled s =
     (let s1 = s\<lparr>useMagicComposite := enabled\<rparr>
      in if \<not> enabled then
           do {
             cam \<leftarrow> index0 (CAMERA_PRESETS c);
             lig \<leftarrow> index0 (LIGHTING_PRESETS c);
             man \<leftarrow> index0 (MANIPULATION_PRESETS c);
             ret \<leftarrow> index0 (RETOUCH_PRESETS c);
             peo \<leftarrow> index0 (PEOPLE_RETOUCH_PRESETS c);
             Some (s1\<lparr>selectedCameras := [cam],
                      selectedLightings := [lig],
                      selectedManipulations := [man],
                      selectedRetouches := [ret],
                      selectedPeopleRetouches := [peo],
                      suggestedPresetIds := Map.empty\<rparr>)
           }
         else Some s1)"

section \<open>History\<close>

text \<open>\<open>setGenerationHistory(prev => [newHistoryItem, ...prev].slice(0, 12))\<close>\<close>

definition history_append :: "HistoryItem \<Rightarrow> HistoryItem list \<Rightarrow> HistoryItem list" where
  "history_append newHistoryItem prev = take 12 (newHistoryItem # prev)"

definition handleHistorySelect :: "HistoryItem \<Rightarrow> session \<Rightarrow> session" where
  "handleHistorySelect item s =
     (let s1 = s\<lparr>appMode := mode item,
                  error := None,
                  creativeError := None,
                  upscaleError := None,
                  generatedImage := None,
                  retouchResultImage := None,
                  illustrationResultImage := None\<rparr>
      in case mode item of
           design_kit \<Rightarrow>
             s1\<lparr>productImage := Some (source item),
                generatedImage := Some (generated item),
                customPrompt := prompt item\<rparr>
         | creative_studio \<Rightarrow>
             (let s2 = s1\<lparr>creativeMode :=
                         (case creativeSubMode item of Some m \<Rightarrow> m | None \<Rightarrow> illustrate)\<rparr>
              in if creativeSubMode item = Some illustrate then
                   s2\<lparr>illustrationImage := Some (source item),
                      illustrationCustomPrompt := prompt item,
                      illustrationResultImage := Some (generated item)\<rparr>
                 else
                   s2\<lparr>personImage := Some (source item),
                      retouchResultImage := Some (generated item)\<rparr>))"

section \<open>The analysis effect (runAnalysis)\<close>

text \<open>
  An asynchronous handler is modelled in three parts: the writes before the \<open>await\<close>
  (\<open>_begin\<close>), the writes after it for a given outcome of the awaited call, the
  \<open>finally\<close> block included (\<open>_settle\<close>), and the handler itself, which checks its
  precondition, begins, calls the service and settles. A run is the final session with
  the effects of the run in order. Values a handler reads from its closure after the
  \<open>await\<close> are those of the session it was called on.
\<close>

type_synonym run = "session \<times> effect list"

text \<open>
  One line of the effect, for a table \<open>T\<close> and a key \<open>k\<close>:
  \<open>if (suggestions.k?.length) setSelected(T.filter(p => suggestions.k.includes(p.id)))\<close>.
\<close>

definition replace_if_suggested ::
  "'a Preset_scheme list \<Rightarrow> string list option \<Rightarrow> 'a Preset_scheme list
     \<Rightarrow> 'a Preset_scheme list" where
  "replace_if_suggested presets suggested current =
     (case suggested of
        None \<Rightarrow> current
      | Some ids \<Rightarrow>
          if ids = [] then current
          else filter (\<lambda>p. id_preset p \<in> set ids) presets)"

definition runAnalysis_begin :: "session \<Rightarrow> session" where
  "runAnalysis_begin s = s\<lparr>isAnalyzing := True, suggestedPresetIds := Map.empty\<rparr>"

definition runAnalysis_settle ::
  "constants \<Rightarrow> (string \<rightharpoonup> string list) outcome \<Rightarrow> session \<Rightarrow> run" where
  "runAnalysis_settle c out s =
     (case out of
        Fulfilled suggestions \<Rightarrow>
          (s\<lparr>selectedCameras :=
               replace_if_suggested (CAMERA_PRESETS c) (suggestions ''camera'') (selectedCameras s),
             selectedLightings :=
               replace_if_suggested (LIGHTING_PRESETS c) (suggestions ''lighting'')
                 (selectedLightings s),
             selectedManipulations :=
               replace_if_suggested (MANIPULATION_PRESETS c) (suggestions ''manipulation'')
                 (selectedManipulations s),
             selectedRetouches :=
               replace_if_suggested (RETOUCH_PRESETS c) (suggestions ''retouch'')
                 (selectedRetouches s),
             selectedPeopleRetouches :=
               replace_if_suggested (PEOPLE_RETOUCH_PRESETS c) (suggestions ''peopleRetouch'')
                 (selectedPeopleRetouches s),
             suggestedPresetIds := suggestions,
             isAnalyzing := False\<rparr>, [])
      | Rejected e \<Rightarrow>
          (s\<lparr>error := Some ''AI analysis failed. Please check the console for details.'',
             isAnalyzing := False\<rparr>, [ConsoleError]))"

definition runAnalysis :: "constants \<Rightarrow> services \<Rightarrow> session \<Rightarrow> run" where
  "runAnalysis c sv s =
     (case (productImage s, referenceImage s) of
        (Some product, Some reference) \<Rightarrow>
          if appMode s = design_kit \<and> useMagicComposite s then
            (let (s', effs) = runAnalysis_settle c
                   (analyzeForCompositeSuggestions sv product reference) (runAnalysis_begin s)
             in (s', Invoke AnalyzeForCompositeSuggestions # effs))
          else (s, [])
      | _ \<Rightarrow> (s, []))"

section \<open>Design-kit pipelines\<close>

definition handleDesignKitGeneration_begin :: "session \<Rightarrow> session" where
  "handleDesignKitGeneration_begin s =
     s\<lparr>isLoading := True, error := None, upscaleError := None, generatedImage := None\<rparr>"

definition handleDesignKitGeneration_settle ::
  "string \<Rightarrow> ImageFile \<Rightarrow> string \<Rightarrow> Image option outcome \<Rightarrow> session \<Rightarrow> run" where
  "handleDesignKitGeneration_settle now product custom out s =
     (case out of
        Fulfilled (Some result) \<Rightarrow>
          (let newHistoryItem = \<lparr>id_item = now, generated = result, source = product,
                 prompt = custom, mode = design_kit, creativeSubMode = None\<rparr>
           in (s\<lparr>generatedImage := Some result,
                 generationHistory := history_append newHistoryItem (generationHistory s),
                 isLoading := False\<rparr>, []))
      | Fulfilled None \<Rightarrow>
          (s\<lparr>error := Some ''The AI could not generate an image. Please try again.'',
             isLoading := False\<rparr>, [])
      | Rejected e \<Rightarrow>
          (s\<lparr>error := Some (message_or e ''An unknown error occurred.''),
             isLoading := False\<rparr>, [ConsoleError]))"

definition generationParams :: "session \<Rightarrow> GenerationParams" where
  "generationParams s =
     \<lparr>cameraPresets = selectedCameras s,
      lightingPresets = selectedLightings s,
      mockupPreset = index0 (selectedMockups s),
      manipulationPresets = selectedManipulations s,
      peopleRetouchPresets = selectedPeopleRetouches s,
      retouchPresets = selectedRetouches s,
      exportSettings = dkExportSettings s,
      customPrompt_param = customPrompt s\<rparr>"

definition handleDesignKitGeneration :: "services \<Rightarrow> session \<Rightarrow> run" where
  "handleDesignKitGeneration sv s =
     (case productImage s of
        Some product \<Rightarrow>
          if \<not> isOnline s then
            (s\<lparr>error := Some ''You are offline. Please check your internet connection.''\<rparr>, [])
          else
            (let (s', effs) = handleDesignKitGeneration_settle (toISOString_now sv) product
                   (customPrompt s)
                   (generateImage sv product (referenceImage s) (useMagicComposite s)
                      (generationParams s))
                   (handleDesignKitGeneration_begin s)
             in (s', Invoke GenerateImage # effs))
      | None \<Rightarrow>
          (s\<lparr>error := Some (if isOnline s then ''Please upload a product image first.''
               else ''You are offline. Please check your internet connection.'')\<rparr>, []))"

definition handleGenerateDKPrompt_begin :: "session \<Rightarrow> session" where
  "handleGenerateDKPrompt_begin s = s\<lparr>isGeneratingDKPrompt := True, error := None\<rparr>"

definition handleGenerateDKPrompt_settle ::
  "PromptSuggestion list option outcome \<Rightarrow> session \<Rightarrow> run" where
  "handleGenerateDKPrompt_settle out s =
     (case out of
        Fulfilled suggestions \<Rightarrow>
          (case suggestions of
             Some (x # xs) \<Rightarrow>
               (s\<lparr>suggestedDKPrompts := Some (x # xs),
                  isDKPromptModalOpen := True,
                  isGeneratingDKPrompt := False\<rparr>, [])
           | _ \<Rightarrow>
               (s\<lparr>error := Some ''The AI could not generate any prompt suggestions.'',
                  isGeneratingDKPrompt := False\<rparr>, []))
      | Rejected e \<Rightarrow>
          (s\<lparr>error := Some (message_or e ''An unknown error occurred during prompt generation.''),
             isGeneratingDKPrompt := False\<rparr>, [ConsoleError]))"

definition handleGenerateDKPrompt :: "services \<Rightarrow> session \<Rightarrow> run" where
  "handleGenerateDKPrompt sv s =
     (case productImage s of
        None \<Rightarrow>
          (s\<lparr>error := Some ''Please upload a product image to generate prompt suggestions.''\<rparr>,
           [])
      | Some product \<Rightarrow>
          (let (s', effs) = handleGenerateDKPrompt_settle
                 (generateDesignKitPrompt sv product (referenceImage s))
                 (handleGenerateDKPrompt_begin s)
           in (s', Invoke GenerateDesignKitPrompt # effs)))"

section \<open>Creative-studio pipelines\<close>

definition handleGenerateCreativePrompts_begin :: "session \<Rightarrow> session" where
  "handleGenerateCreativePrompts_begin s =
     s\<lparr>isGeneratingPrompt := True, creativeError := None, suggestedCreativePrompts := None\<rparr>"

definition handleGenerateCreativePrompts_settle ::
  "PromptSuggestion list option outcome \<Rightarrow> session \<Rightarrow> run" where
  "handleGenerateCreativePrompts_settle out s =
     (case out of
        Fulfilled suggestions \<Rightarrow>
          (case suggestions of
             Some (x # xs) \<Rightarrow>
               (s\<lparr>suggestedCreativePrompts := Some (x # xs),
                  isCreativePromptModalOpen := True,
                  isGeneratingPrompt := False\<rparr>, [])
           | _ \<Rightarrow>
               (s\<lparr>creativeError := Some ''The AI could not generate any suggestions.'',
                  isGeneratingPrompt := False\<rparr>, []))
      | Rejected e \<Rightarrow>
          (s\<lparr>creativeError :=
               Some (message_or e ''An unknown error occurred during prompt generation.''),
             isGeneratingPrompt := False\<rparr>, [ConsoleError]))"

definition handleGenerateCreativePrompts :: "services \<Rightarrow> session \<Rightarrow> run" where
  "handleGenerateCreativePrompts sv s =
     (let baseImage = (if creativeMode s = illustrate then illustrationImage s else None)
      in case baseImage of
           None \<Rightarrow> (s\<lparr>creativeError := Some ''Please upload a base image first.''\<rparr>, [])
         | Some base \<Rightarrow>
             (let (s', effs) = handleGenerateCreativePrompts_settle
                    (generateIllustrationPrompts sv base (illustrationReferenceImage s))
                    (handleGenerateCreativePrompts_begin s)
              in (s', Invoke GenerateIllustrationPrompts # effs)))"

definition handleGenerateIllustration_begin :: "session \<Rightarrow> session" where
  "handleGenerateIllustration_begin s =
     s\<lparr>isGeneratingIllustration := True,
       creativeError := None,
       illustrationResultImage := None,
       generationStatusText := ''Sketching your vision...''\<rparr>"

definition handleGenerateIllustration_settle ::
  "string \<Rightarrow> ImageFile \<Rightarrow> string \<Rightarrow> Image option outcome \<Rightarrow> session \<Rightarrow> run" where
  "handleGenerateIllustration_settle now img custom out s =
     (case out of
        Fulfilled (Some result) \<Rightarrow>
          (let newHistoryItem = \<lparr>id_item = now, generated = result, source = img,
                 prompt = custom, mode = creative_studio, creativeSubMode = Some illustrate\<rparr>
           in (s\<lparr>illustrationResultImage := Some result,
                 generationHistory := history_append newHistoryItem (generationHistory s),
                 isGeneratingIllustration := False,
                 generationStatusText := ''''\<rparr>, []))
      | Fulfilled None \<Rightarrow>
          (s\<lparr>creativeError := Some
               ''The AI could not generate an illustration. Please try a different style or image.'',
             isGeneratingIllustration := False,
             generationStatusText := ''''\<rparr>, [])
      | Rejected e \<Rightarrow>
          (s\<lparr>creativeError := Some (message_or e ''An unknown error occurred during illustration.''),
             isGeneratingIllustration := False,
             generationStatusText := ''''\<rparr>, [ConsoleError]))"

definition handleGenerateIllustration :: "constants \<Rightarrow> services \<Rightarrow> session \<Rightarrow> run" where
  "handleGenerateIllustration c sv s =
     (case illustrationImage s of
        Some img \<Rightarrow>
          if \<not> isOnline s then (s\<lparr>creativeError := Some ''You are offline.''\<rparr>, [])
          else
            (let styleToUse =
                   (if useIllustrationStylePreset s then Some (selectedIllustrationStyle s)
                    else find (\<lambda>p. id_preset p = ''none'') (ILLUSTRATION_STYLE_PRESETS c));
                 (s', effs) = handleGenerateIllustration_settle (toISOString_now sv) img
                   (illustrationCustomPrompt s)
                   (generateIllustration sv img styleToUse (illustrationDetailFidelity s)
                      (illustrationCustomPrompt s) (illustrationReferenceImage s))
                   (handleGenerateIllustration_begin s)
             in (s', Invoke GenerateIllustration # effs))
      | None \<Rightarrow>
          (s\<lparr>creativeError := Some (if \<not> isOnline s then ''You are offline.''
               else ''Please upload an image to illustrate.'')\<rparr>, []))"

definition handleDownloadVector_begin :: "session \<Rightarrow> session" where
  "handleDownloadVector_begin s =
     s\<lparr>isIllustrationDownloadMenuOpen := False,
       isVectorizing := True,
       creativeError := None,
       generationStatusText := ''Vectorizing image...''\<rparr>"

text \<open>\<open>if (svgCode)\<close>: the empty string is falsy, as \<open>null\<close> is.\<close>

definition handleDownloadVector_settle :: "string option outcome \<Rightarrow> session \<Rightarrow> run" where
  "handleDownloadVector_settle out s =
     (case out of
        Fulfilled svgCode \<Rightarrow>
          (case svgCode of
             Some (ch # rest) \<Rightarrow>
               (s\<lparr>isVectorizing := False, generationStatusText := ''''\<rparr>,
                [DownloadSvg (ch # rest)])
           | _ \<Rightarrow>
               (s\<lparr>creativeError := Some ''The AI could not convert the image to SVG.'',
                  isVectorizing := False,
                  generationStatusText := ''''\<rparr>, []))
      | Rejected e \<Rightarrow>
          (s\<lparr>creativeError := Some (message_or e ''An unknown error occurred during vectorization.''),
             isVectorizing := False,
             generationStatusText := ''''\<rparr>, [ConsoleError]))"

definition handleDownloadVector :: "services \<Rightarrow> session \<Rightarrow> run" where
  "handleDownloadVector sv s =
     (case illustrationResultImage s of
        None \<Rightarrow> (s, [])
      | Some img \<Rightarrow>
          (let (s', effs) = handleDownloadVector_settle (vectorizeImage sv img)
                 (handleDownloadVector_begin s)
           in (s', Invoke VectorizeImage # effs)))"

definition handleSmartRetouch_begin :: "session \<Rightarrow> session" where
  "handleSmartRetouch_begin s =
     s\<lparr>isGeneratingCreative := True,
       generationStatusText := ''Performing high-end face retouch...'',
       creativeError := None,
       retouchResultImage := None\<rparr>"

definition handleSmartRetouch_settle ::
  "string \<Rightarrow> ImageFile \<Rightarrow> Image option outcome \<Rightarrow> session \<Rightarrow> run" where
  "handleSmartRetouch_settle now person out s =
     (case out of
        Fulfilled (Some result) \<Rightarrow>
          (let newHistoryItem = \<lparr>id_item = now, generated = result, source = person,
                 prompt = ''Smart Studio Retouch'', mode = creative_studio,
                 creativeSubMode = Some retouch\<rparr>
           in (s\<lparr>retouchResultImage := Some result,
                 generationHistory := history_append newHistoryItem (generationHistory s),
                 isGeneratingCreative := False,
                 generationStatusText := ''''\<rparr>, []))
      | Fulfilled None \<Rightarrow>
          (s\<lparr>creativeError := Some ''The AI could not retouch the image.'',
             isGeneratingCreative := False,
             generationStatusText := ''''\<rparr>, [])
      | Rejected e \<Rightarrow>
          (s\<lparr>creativeError := Some (message_or e ''An unknown error occurred during retouching.''),
             isGeneratingCreative := False,
             generationStatusText := ''''\<rparr>, [ConsoleError]))"

definition handleSmartRetouch :: "services \<Rightarrow> session \<Rightarrow> run" where
  "handleSmartRetouch sv s =
     (case personImage s of
        Some person \<Rightarrow>
          if \<not> isOnline s then (s\<lparr>creativeError := Some ''You are offline.''\<rparr>, [])
          else
            (let (s', effs) = handleSmartRetouch_settle (toISOString_now sv) person
                   (performSmartRetouch sv person (retouchOptions s))
                   (handleSmartRetouch_begin s)
             in (s', Invoke PerformSmartRetouch # effs))
      | None \<Rightarrow>
          (s\<lparr>creativeError := Some (if \<not> isOnline s then ''You are offline.''
               else ''Please upload a portrait to retouch.'')\<rparr>, []))"

definition handleEnvironmentGeneration_begin :: "session \<Rightarrow> session" where
  "handleEnvironmentGeneration_begin s =
     s\<lparr>isGeneratingCreative := True,
       generationStatusText := ''Harmonizing light, color, and shadows...'',
       creativeError := None,
       retouchResultImage := None\<rparr>"

definition handleEnvironmentGeneration_settle ::
  "string \<Rightarrow> ImageFile \<Rightarrow> string \<Rightarrow> Image option outcome \<Rightarrow> session \<Rightarrow> run" where
  "handleEnvironmentGeneration_settle now person env out s =
     (case out of
        Fulfilled (Some result) \<Rightarrow>
          (let newHistoryItem = \<lparr>id_item = now, generated = result, source = person,
                 prompt = ''Environment: '' @ env, mode = creative_studio,
                 creativeSubMode = Some retouch\<rparr>
           in (s\<lparr>retouchResultImage := Some result,
                 generationHistory := history_append newHistoryItem (generationHistory s),
                 isGeneratingCreative := False,
                 generationStatusText := ''''\<rparr>, []))
      | Fulfilled None \<Rightarrow>
          (s\<lparr>creativeError := Some ''The AI could not generate the environment.'',
             isGeneratingCreative := False,
             generationStatusText := ''''\<rparr>, [])
      | Rejected e \<Rightarrow>
          (s\<lparr>creativeError :=
               Some (message_or e ''An unknown error occurred during environment generation.''),
             isGeneratingCreative := False,
             generationStatusText := ''''\<rparr>, [ConsoleError]))"

definition handleEnvironmentGeneration :: "services \<Rightarrow> session \<Rightarrow> run" where
  "handleEnvironmentGeneration sv s =
     (case personImage s of
        Some person \<Rightarrow>
          if \<not> isOnline s then (s\<lparr>creativeError := Some ''You are offline.''\<rparr>, [])
          else
            (let (s', effs) = handleEnvironmentGeneration_settle (toISOString_now sv) person
                   (selectedEnvironment s)
                   (generateEnvironment sv person (selectedEnvironment s) (retouchOptions s))
                   (handleEnvironmentGeneration_begin s)
             in (s', Invoke GenerateEnvironment # effs))
      | None \<Rightarrow>
          (s\<lparr>creativeError := Some (if \<not> isOnline s then ''You are offline.''
               else ''Please upload a portrait.'')\<rparr>, []))"

definition handleGenerateRetouchPrompts_begin :: "session \<Rightarrow> session" where
  "handleGenerateRetouchPrompts_begin s =
     s\<lparr>isGeneratingRetouchPrompts := True, creativeError := None\<rparr>"

definition handleGenerateRetouchPrompts_settle ::
  "string list option outcome \<Rightarrow> session \<Rightarrow> run" where
  "handleGenerateRetouchPrompts_settle out s =
     (case out of
        Fulfilled prompts \<Rightarrow>
          (s\<lparr>generatedRetouchPrompts := prompts, isGeneratingRetouchPrompts := False\<rparr>, [])
      | Rejected e \<Rightarrow>
          (s\<lparr>creativeError :=
               Some (message_or e ''An unknown error occurred during prompt generation.''),
             isGeneratingRetouchPrompts := False\<rparr>, [ConsoleError]))"

definition handleGenerateRetouchPrompts :: "services \<Rightarrow> session \<Rightarrow> run" where
  "handleGenerateRetouchPrompts sv s =
     (let (s', effs) = handleGenerateRetouchPrompts_settle
            (generateRetouchPrompts sv (selectedEnvironment s) (promptStyleVariety s)
               (syncPromptWithEnv s))
            (handleGenerateRetouchPrompts_begin s)
      in (s', Invoke GenerateRetouchPrompts # effs))"

section \<open>Upscale\<close>

text \<open>The target as the string it is in the source, and \<open>target.toUpperCase()\<close>.\<close>

definition target_string :: "UpscaleTarget \<Rightarrow> string" where
  "target_string target = (case target of target_hd \<Rightarrow> ''hd'' | target_4k \<Rightarrow> ''4k'')"

definition toUpperCase :: "UpscaleTarget \<Rightarrow> string" where
  "toUpperCase target = (case target of target_hd \<Rightarrow> ''HD'' | target_4k \<Rightarrow> ''4K'')"

definition imageToUpscale :: "session \<Rightarrow> Image option" where
  "imageToUpscale s =
     (if appMode s = design_kit then generatedImage s
      else if creativeMode s = retouch then retouchResultImage s
      else illustrationResultImage s)"

definition sourceImage :: "session \<Rightarrow> ImageFile option" where
  "sourceImage s =
     (if appMode s = design_kit then productImage s
      else if creativeMode s = retouch then personImage s
      else illustrationImage s)"

definition handleUpscale_begin :: "UpscaleTarget \<Rightarrow> session \<Rightarrow> session" where
  "handleUpscale_begin target s =
     s\<lparr>isUpscaling := Some target,
       upscaleError := None,
       error := None,
       creativeError := None,
       generationStatusText := ''Upscaling with detail preservation...''\<rparr>"

text \<open>
  \<open>s0\<close> is the session the handler was called on: \<open>appMode\<close>, \<open>creativeMode\<close> and
  \<open>customPrompt\<close> are read from the handler's closure.
\<close>

definition handleUpscale_settle ::
  "string \<Rightarrow> session \<Rightarrow> UpscaleTarget \<Rightarrow> ImageFile \<Rightarrow> Image option outcome \<Rightarrow> session
     \<Rightarrow> run" where
  "handleUpscale_settle now s0 target src out s =
     (case out of
        Fulfilled (Some upscaledResult) \<Rightarrow>
          (let promptForHistory =
                 (if appMode s0 = design_kit then customPrompt s0
                  else ''Upscaled to '' @ toUpperCase target);
               s1 = (if appMode s0 = design_kit then s\<lparr>generatedImage := Some upscaledResult\<rparr>
                     else if creativeMode s0 = retouch
                       then s\<lparr>retouchResultImage := Some upscaledResult\<rparr>
                     else s\<lparr>illustrationResultImage := Some upscaledResult\<rparr>);
               newHistoryItem =
                 \<lparr>id_item = now @ ''-upscaled-'' @ target_string target,
                  generated = upscaledResult,
                  source = src,
                  prompt = promptForHistory,
                  mode = appMode s0,
                  creativeSubMode =
                    (if appMode s0 = creative_studio then Some (creativeMode s0) else None)\<rparr>
           in (s1\<lparr>generationHistory := history_append newHistoryItem (generationHistory s1),
                  isUpscaling := None,
                  generationStatusText := ''''\<rparr>, []))
      | Fulfilled None \<Rightarrow>
          (s\<lparr>upscaleError := Some ''The AI could not upscale the image.'',
             isUpscaling := None,
             generationStatusText := ''''\<rparr>, [])
      | Rejected e \<Rightarrow>
          (s\<lparr>upscaleError := Some (message_or e ''An unknown error occurred during upscaling.''),
             isUpscaling := None,
             generationStatusText := ''''\<rparr>, [ConsoleError]))"

definition handleUpscale :: "services \<Rightarrow> UpscaleTarget \<Rightarrow> session \<Rightarrow> run" where
  "handleUpscale sv target s =
     (let s1 = s\<lparr>isUpscaleMenuOpen := False\<rparr>
      in case (imageToUpscale s, sourceImage s) of
           (Some img, Some src) \<Rightarrow>
             (let (s', effs) = handleUpscale_settle (toISOString_now sv) s target src
                    (upscaleImage sv img target) (handleUpscale_begin target s1)
              in (s', Invoke UpscaleImage # effs))
         | _ \<Rightarrow> (s1, []))"

section \<open>The selection invariant\<close>

text \<open>
  A selection is well formed when it is exactly the sentinel, or is not empty, has no
  two presets with one id and does not hold the sentinel.
\<close>

definition selection_ok :: "'a Preset_scheme list \<Rightarrow> bool" where
  "selection_ok S =
     (map id_preset S = [''none''] \<or>
      (S \<noteq> [] \<and> distinct (map id_preset S) \<and> \<not> list_ex (\<lambda>p. id_preset p = ''none'') S))"

section \<open>Concrete inputs\<close>

text \<open>
  Small preset tables, images, services and a session on which the model is run in the
  closed theorems below. The session is the one the state hooks start with, online.
\<close>

definition example_preset :: "string \<Rightarrow> Preset" where
  "example_preset i = \<lparr>id_preset = i, name = i, description = i\<rparr>"

definition example_camera :: "string \<Rightarrow> CameraPreset" where
  "example_camera i = \<lparr>id_preset = i, name = i, description = i, metadata = ''f/2.8''\<rparr>"

definition example_constants :: constants where
  "example_constants =
     \<lparr>CAMERA_PRESETS = [example_camera ''none'', example_camera ''macro'', example_camera ''wide''],
      LIGHTING_PRESETS = [example_camera ''none'', example_camera ''softbox''],
      MOCKUP_PRESETS = [example_preset ''none'', example_preset ''box'', example_preset ''bag''],
      MANIPULATION_PRESETS = [example_preset ''none'', example_preset ''float''],
      PEOPLE_RETOUCH_PRESETS = [example_preset ''none'', example_preset ''skin''],
      RETOUCH_PRESETS = [example_preset ''none'', example_preset ''clean''],
      ILLUSTRATION_STYLE_PRESETS = [example_preset ''none'', example_preset ''ink'']\<rparr>"

definition example_file :: "string \<Rightarrow> ImageFile" where
  "example_file n = \<lparr>base64 = n, mimeType = ''image/png'', file_ref = n\<rparr>"

definition example_image :: "string \<Rightarrow> Image" where
  "example_image n = \<lparr>base64 = n, mimeType = ''image/png''\<rparr>"

definition example_options :: RetouchOptions where
  "example_options =
     \<lparr>smoothness = 50, lightBalance = 50, correctSkinTones = True, sharpen = True,
      removeBlemishes = True, backgroundBlur = 0, hdrEffect = 0, vintageFade = 0,
      glossySkin = False, environmentHarmony = True, lightDirection = LD_Auto,
      keyFillRatio = 50, shadowSoftness = 50, wbAndGrade = WB_Auto, artistCommand = ''''\<rparr>"

definition example_session :: session where
  "example_session =
     \<lparr>appMode = design_kit,
      isOnline = True,
      productImage = None,
      referenceImage = None,
      generatedImage = None,
      selectedCameras = [example_camera ''none''],
      selectedLightings = [example_camera ''none''],
      selectedMockups = [example_preset ''none''],
      selectedManipulations = [example_preset ''none''],
      selectedPeopleRetouches = [example_preset ''none''],
      selectedRetouches = [example_preset ''none''],
      dkExportSettings = \<lparr>aspectRatio = ratio_4_5, transparent = False\<rparr>,
      customPrompt = '''',
      useMagicComposite = True,
      isLoading = False,
      isAnalyzing = False,
      suggestedPresetIds = Map.empty,
      error = None,
      isGeneratingDKPrompt = False,
      suggestedDKPrompts = None,
      isDKPromptModalOpen = False,
      creativeMode = illustrate,
      isGeneratingCreative = False,
      creativeError = None,
      illustrationImage = None,
      illustrationReferenceImage = None,
      illustrationCustomPrompt = '''',
      illustrationResultImage = None,
      isGeneratingIllustration = False,
      selectedIllustrationStyle = example_preset ''none'',
      illustrationDetailFidelity = 75,
      useIllustrationStylePreset = True,
      generationStatusText = '''',
      isVectorizing = False,
      isIllustrationDownloadMenuOpen = False,
      suggestedCreativePrompts = None,
      isCreativePromptModalOpen = False,
      isGeneratingPrompt = False,
      personImage = None,
      retouchResultImage = None,
      retouchSubMode = smart,
      retouchOptions = example_options,
      selectedEnvironment = ''Studio'',
      generatedRetouchPrompts = None,
      isGeneratingRetouchPrompts = False,
      promptStyleVariety = normal,
      syncPromptWithEnv = True,
      generationHistory = [],
      isUpscaling = None,
      upscaleError = None,
      isUpscaleMenuOpen = False\<rparr>"

text \<open>
  Services that always fulfil: every image call with the image \<open>result\<close>, the analysis
  with the one suggestion \<open>camera: [telephoto]\<close>, an id that no example camera has.
\<close>

definition example_services :: services where
  "example_services =
     \<lparr>generateImage = (\<lambda>product reference magic params. Fulfilled (Some (example_image ''result''))),
      analyzeForCompositeSuggestions =
        (\<lambda>product reference. Fulfilled [''camera'' \<mapsto> [''telephoto'']]),
      performSmartRetouch = (\<lambda>person opts. Fulfilled (Some (example_image ''result''))),
      generateEnvironment = (\<lambda>person env opts. Fulfilled (Some (example_image ''result''))),
      upscaleImage = (\<lambda>img target. Fulfilled (Some (example_image ''upscaled''))),
      generateDesignKitPrompt = (\<lambda>product reference. Fulfilled None),
      generateIllustration =
        (\<lambda>img style fidelity custom reference. Fulfilled (Some (example_image ''result''))),
      generateIllustrationPrompts = (\<lambda>base reference. Fulfilled None),
      generateRetouchPrompts = (\<lambda>env variety sync. Fulfilled None),
      vectorizeImage = (\<lambda>img. Fulfilled None),
      toISOString_now = ''2025-01-01T00:00:00.000Z''\<rparr>"

definition example_item :: "string \<Rightarrow> HistoryItem" where
  "example_item n =
     \<lparr>id_item = n, generated = example_image n, source = example_file n, prompt = n,
      mode = design_kit, creativeSubMode = None\<rparr>"

text \<open>
  Two history items as the creative pipelines make them: one of a smart retouch, one of an
  illustration.
\<close>

definition example_retouch_item :: HistoryItem where
  "example_retouch_item =
     \<lparr>id_item = ''2025-01-01T00:00:00.000Z'', generated = example_image ''result'',
      source = example_file ''face'', prompt = ''Smart Studio Retouch'',
      mode = creative_studio, creativeSubMode = Some retouch\<rparr>"

definition example_illustrate_item :: HistoryItem where
  "example_illustrate_item =
     \<lparr>id_item = ''2025-01-02T00:00:00.000Z'', generated = example_image ''drawing'',
      source = example_file ''cat'', prompt = ''ink sketch'',
      mode = creative_studio, creativeSubMode = Some illustrate\<rparr>"

text \<open>
  Sessions for the runs below: with a product and a reference image; with a product
  image, a generated image and a custom prompt; in the retouch mode with a portrait and a
  retouch result; and offline with no image.
\<close>

definition example_pair_session :: session where
  "example_pair_session =
     example_session\<lparr>productImage := Some (example_file ''shoe''),
       referenceImage := Some (example_file ''scene'')\<rparr>"

definition example_product_session :: session where
  "example_product_session =
     example_session\<lparr>productImage := Some (example_file ''shoe''),
       generatedImage := Some (example_image ''composite''),
       customPrompt := ''red shoe''\<rparr>"

definition example_portrait_session :: session where
  "example_portrait_session =
     example_session\<lparr>appMode := creative_studio,
       creativeMode := retouch,
       personImage := Some (example_file ''face''),
       retouchResultImage := Some (example_image ''result'')\<rparr>"

definition example_offline_session :: session where
  "example_offline_session = example_session\<lparr>isOnline := False\<rparr>"

section \<open>Shared lemmas\<close>

lemmas example_defs = example_preset_def example_camera_def example_constants_def
  example_file_def example_image_def example_options_def example_session_def
  example_services_def example_item_def example_retouch_item_def example_illustrate_item_def
  example_pair_session_def example_product_session_def example_portrait_session_def
  example_offline_session_def

lemma take_append_take: "take n (xs @ take n ys) = take n (xs @ ys)"
  by (simp add: min_def)

text \<open>Any number of appends to a cache of at most 12 entries, oldest first in \<open>items\<close>.\<close>

lemma foldl_history_append:
  "foldl (\<lambda>h i. history_append i h) (take 12 prev) items = take 12 (rev items @ prev)"
proof (induction items arbitrary: prev)
  case Nil
  show ?case by simp
next
  case (Cons a items)
  have "foldl (\<lambda>h i. history_append i h) (take 12 prev) (a # items)
      = foldl (\<lambda>h i. history_append i h) (take 12 (a # take 12 prev)) items"
    by (simp add: history_append_def)
  also have "\<dots> = take 12 (rev items @ a # take 12 prev)"
    by (rule Cons.IH)
  also have "\<dots> = take 12 ((rev items @ [a]) @ take 12 prev)"
    by simp
  also have "\<dots> = take 12 ((rev items @ [a]) @ prev)"
    by (rule take_append_take)
  finally show ?case by simp
qed

text \<open>At least one append, to any cache.\<close>

lemma foldl_history_append_Cons:
  "foldl (\<lambda>h i. history_append i h) prev (a # items) = take 12 (rev (a # items) @ prev)"
proof -
  have "foldl (\<lambda>h i. history_append i h) prev (a # items)
      = foldl (\<lambda>h i. history_append i h) (take 12 (a # prev)) items"
    by (simp add: history_append_def)
  also have "\<dots> = take 12 (rev items @ a # prev)"
    by (rule foldl_history_append)
  finally show ?thesis by simp
qed

section \<open>Toggle semantics\<close>

text \<open>
  Claim C1. In a table \<open>presets\<close> whose sentinel (the first preset with id \<open>none\<close>) is
  \<open>N\<close>, toggling \<open>preset\<close> on the selection \<open>S\<close> gives: \<open>[N]\<close> when the preset is the
  sentinel; \<open>[N]\<close> when the preset is selected and \<open>S\<close> has one element; \<open>S\<close> without the
  presets of that id, in their order, when the preset is selected and \<open>S\<close> has more than
  one element; and otherwise \<open>S\<close> without the sentinel, followed by the preset. The five
  multi-select handlers (camera, lighting, manipulation, people retouch, retouch) are
  \<open>createToggleHandler\<close> on their own table and selection.
\<close>

theorem toggle_cases:
  assumes "find (\<lambda>p. id_preset p = ''none'') presets = Some N"
  shows "(id_preset preset = ''none'' \<longrightarrow> createToggleHandler presets preset S = Some [N]) \<and>
    (list_ex (\<lambda>p. id_preset p = id_preset preset) S \<and> length S = 1
       \<longrightarrow> createToggleHandler presets preset S = Some [N]) \<and>
    (id_preset preset \<noteq> ''none'' \<and> list_ex (\<lambda>p. id_preset p = id_preset preset) S \<and>
     1 < length S
       \<longrightarrow> createToggleHandler presets preset S =
           Some (filter (\<lambda>p. id_preset p \<noteq> id_preset preset) S)) \<and>
    (id_preset preset \<noteq> ''none'' \<and> \<not> list_ex (\<lambda>p. id_preset p = id_preset preset) S
       \<longrightarrow> createToggleHandler presets preset S =
           Some (filter (\<lambda>p. id_preset p \<noteq> ''none'') S @ [preset]))"
  using assms by (simp add: createToggleHandler_def Let_def)

text \<open>
  The scenario of the specification on the example cameras: from \<open>[macro]\<close>, toggling
  \<open>wide\<close>, then \<open>macro\<close>, then \<open>wide\<close>; and toggling the sentinel on two selected cameras.
\<close>

theorem toggle_cases_witness:
  "find (\<lambda>p. id_preset p = ''none'') (CAMERA_PRESETS example_constants)
     = Some (example_camera ''none'') \<and>
   createToggleHandler (CAMERA_PRESETS example_constants) (example_camera ''wide'')
     [example_camera ''macro''] = Some [example_camera ''macro'', example_camera ''wide''] \<and>
   createToggleHandler (CAMERA_PRESETS example_constants) (example_camera ''macro'')
     [example_camera ''macro'', example_camera ''wide''] = Some [example_camera ''wide''] \<and>
   createToggleHandler (CAMERA_PRESETS example_constants) (example_camera ''wide'')
     [example_camera ''wide''] = Some [example_camera ''none''] \<and>
   createToggleHandler (CAMERA_PRESETS example_constants) (example_camera ''none'')
     [example_camera ''macro'', example_camera ''wide''] = Some [example_camera ''none'']"
proof -
  have sentinel: "find (\<lambda>p. id_preset p = ''none'') (CAMERA_PRESETS example_constants)
      = Some (example_camera ''none'')"
    by (simp add: example_defs)
  note cases = toggle_cases [OF sentinel]
  show ?thesis
    using sentinel
      cases [of "example_camera ''wide''" "[example_camera ''macro'']"]
      cases [of "example_camera ''macro''" "[example_camera ''macro'', example_camera ''wide'']"]
      cases [of "example_camera ''wide''" "[example_camera ''wide'']"]
      cases [of "example_camera ''none''" "[example_camera ''macro'', example_camera ''wide'']"]
    by (simp add: example_camera_def)
qed

text \<open>
  Claim C10. On a selection \<open>S\<close> that is not empty, holds no sentinel and no two presets
  with one id, toggling twice a preset \<open>p\<close> that is not the sentinel and not in \<open>S\<close> gives
  \<open>S\<close> back, the same presets in the same order.
\<close>

theorem toggle_twice_absent:
  assumes "S \<noteq> []"
    and "\<not> list_ex (\<lambda>q. id_preset q = ''none'') S"
    and "distinct (map id_preset S)"
    and "id_preset p \<noteq> ''none''"
    and "\<not> list_ex (\<lambda>q. id_preset q = id_preset p) S"
  shows "Option.bind (createToggleHandler presets p S) (createToggleHandler presets p) = Some S"
proof -
  have keep: "filter (\<lambda>q. id_preset q \<noteq> ''none'') S = S"
    using assms(2) by (simp add: list_ex_iff filter_id_conv)
  have grow: "createToggleHandler presets p S = Some (S @ [p])"
    using assms(4,5) keep by (simp add: createToggleHandler_def Let_def)
  have shrink: "filter (\<lambda>q. id_preset q \<noteq> id_preset p) (S @ [p]) = S"
    using assms(5) by (simp add: list_ex_iff filter_id_conv)
  have len: "length (S @ [p]) \<noteq> 1"
    using assms(1) by (cases S) simp_all
  have again: "createToggleHandler presets p (S @ [p]) = Some S"
    using assms(4) shrink len by (simp add: createToggleHandler_def Let_def)
  show ?thesis by (simp add: grow again)
qed

theorem toggle_twice_absent_witness:
  "[example_camera ''macro''] \<noteq> [] \<and>
   \<not> list_ex (\<lambda>q. id_preset q = ''none'') [example_camera ''macro''] \<and>
   distinct (map id_preset [example_camera ''macro'']) \<and>
   id_preset (example_camera ''wide'') \<noteq> ''none'' \<and>
   \<not> list_ex (\<lambda>q. id_preset q = id_preset (example_camera ''wide'')) [example_camera ''macro''] \<and>
   Option.bind
     (createToggleHandler (CAMERA_PRESETS example_constants) (example_camera ''wide'')
        [example_camera ''macro''])
     (createToggleHandler (CAMERA_PRESETS example_constants) (example_camera ''wide''))
   = Some [example_camera ''macro'']"
proof -
  have h1: "[example_camera ''macro''] \<noteq> []" by simp
  have h2: "\<not> list_ex (\<lambda>q. id_preset q = ''none'') [example_camera ''macro'']"
    by (simp add: example_camera_def)
  have h3: "distinct (map id_preset [example_camera ''macro''])" by simp
  have h4: "id_preset (example_camera ''wide'') \<noteq> ''none''"
    by (simp add: example_camera_def)
  have h5: "\<not> list_ex (\<lambda>q. id_preset q = id_preset (example_camera ''wide''))
      [example_camera ''macro'']"
    by (simp add: example_camera_def)
  show ?thesis
    using h1 h2 h3 h4 h5
      toggle_twice_absent [OF h1 h2 h3 h4 h5, of "CAMERA_PRESETS example_constants"]
    by simp
qed

section \<open>Mockup selection\<close>

text \<open>
  Claim C9. The mockup selection is single-select. Whatever the current selection,
  selecting a preset whose id is not the id of the selected preset (\<open>current[0]\<close>) gives
  exactly that preset, also when nothing is selected; selecting the selected preset again
  gives exactly the first preset \<open>d\<close> of the mockup table.
\<close>

theorem mockup_single_select:
  "(id_preset c0 \<noteq> id_preset preset
      \<longrightarrow> mockupSelect mockups preset (c0 # rest) = Some [preset]) \<and>
   mockupSelect mockups preset [] = Some [preset] \<and>
   (id_preset c0 = id_preset preset \<and> index0 mockups = Some d
      \<longrightarrow> mockupSelect mockups preset (c0 # rest) = Some [d]) \<and>
   handleMockupSelect c preset s =
     map_option (\<lambda>sel. s\<lparr>selectedMockups := sel\<rparr>)
       (mockupSelect (MOCKUP_PRESETS c) preset (selectedMockups s))"
  by (simp add: mockupSelect_def handleMockupSelect_def)

theorem mockup_single_select_witness:
  "id_preset (example_preset ''box'') \<noteq> id_preset (example_preset ''bag'') \<and>
   mockupSelect (MOCKUP_PRESETS example_constants) (example_preset ''bag'')
     [example_preset ''box''] = Some [example_preset ''bag''] \<and>
   index0 (MOCKUP_PRESETS example_constants) = Some (example_preset ''none'') \<and>
   mockupSelect (MOCKUP_PRESETS example_constants) (example_preset ''box'')
     [example_preset ''box''] = Some [example_preset ''none'']"
proof -
  have differ: "id_preset (example_preset ''box'') \<noteq> id_preset (example_preset ''bag'')"
    by (simp add: example_preset_def)
  have first: "index0 (MOCKUP_PRESETS example_constants) = Some (example_preset ''none'')"
    by (simp add: example_constants_def index0_def)
  show ?thesis
    using differ first
      mockup_single_select [of "example_preset ''box''" "example_preset ''bag''"
        "MOCKUP_PRESETS example_constants" "[]" "example_preset ''none''"]
      mockup_single_select [of "example_preset ''box''" "example_preset ''box''"
        "MOCKUP_PRESETS example_constants" "[]" "example_preset ''none''"]
    by simp
qed

section \<open>The magic-composite switch\<close>

text \<open>
  Claim C7. With \<open>cam\<close>, \<open>lig\<close>, \<open>man\<close>, \<open>ret\<close> and \<open>peo\<close> the first presets of the five
  tables, switching magic composite off is one state transition that sets the flag to
  false, each of the five selections to the singleton of its first preset and the
  suggestion map to the empty map, and changes nothing else. Switching it on sets the
  flag and changes nothing else.
\<close>

theorem magic_composite_toggle:
  assumes "index0 (CAMERA_PRESETS c) = Some cam"
    and "index0 (LIGHTING_PRESETS c) = Some lig"
    and "index0 (MANIPULATION_PRESETS c) = Some man"
    and "index0 (RETOUCH_PRESETS c) = Some ret"
    and "index0 (PEOPLE_RETOUCH_PRESETS c) = Some peo"
  shows "handleMagicCompositeToggle c False s =
      Some (s\<lparr>useMagicComposite := False,
              selectedCameras := [cam],
              selectedLightings := [lig],
              selectedManipulations := [man],
              selectedRetouches := [ret],
              selectedPeopleRetouches := [peo],
              suggestedPresetIds := Map.empty\<rparr>) \<and>
    handleMagicCompositeToggle c True s = Some (s\<lparr>useMagicComposite := True\<rparr>)"
  using assms by (simp add: handleMagicCompositeToggle_def)

theorem magic_composite_toggle_witness:
  "index0 (CAMERA_PRESETS example_constants) = Some (example_camera ''none'') \<and>
   index0 (LIGHTING_PRESETS example_constants) = Some (example_camera ''none'') \<and>
   index0 (MANIPULATION_PRESETS example_constants) = Some (example_preset ''none'') \<and>
   index0 (RETOUCH_PRESETS example_constants) = Some (example_preset ''none'') \<and>
   index0 (PEOPLE_RETOUCH_PRESETS example_constants) = Some (example_preset ''none'') \<and>
   handleMagicCompositeToggle example_constants False
     (example_session\<lparr>selectedCameras := [example_camera ''macro'', example_camera ''wide''],
        suggestedPresetIds := [''camera'' \<mapsto> [''macro'', ''wide'']]\<rparr>)
   = Some (example_session\<lparr>useMagicComposite := False\<rparr>) \<and>
   handleMagicCompositeToggle example_constants True
     (example_session\<lparr>selectedCameras := [example_camera ''macro'', example_camera ''wide''],
        suggestedPresetIds := [''camera'' \<mapsto> [''macro'', ''wide'']]\<rparr>)
   = Some (example_session\<lparr>selectedCameras := [example_camera ''macro'', example_camera ''wide''],
        suggestedPresetIds := [''camera'' \<mapsto> [''macro'', ''wide'']]\<rparr>)"
proof -
  have cam: "index0 (CAMERA_PRESETS example_constants) = Some (example_camera ''none'')"
    by (simp add: example_constants_def index0_def)
  have lig: "index0 (LIGHTING_PRESETS example_constants) = Some (example_camera ''none'')"
    by (simp add: example_constants_def index0_def)
  have man: "index0 (MANIPULATION_PRESETS example_constants) = Some (example_preset ''none'')"
    by (simp add: example_constants_def index0_def)
  have ret: "index0 (RETOUCH_PRESETS example_constants) = Some (example_preset ''none'')"
    by (simp add: example_constants_def index0_def)
  have peo: "index0 (PEOPLE_RETOUCH_PRESETS example_constants) = Some (example_preset ''none'')"
    by (simp add: example_constants_def index0_def)
  show ?thesis
    using cam lig man ret peo
      magic_composite_toggle [OF cam lig man ret peo,
        of "example_session\<lparr>selectedCameras := [example_camera ''macro'', example_camera ''wide''],
              suggestedPresetIds := [''camera'' \<mapsto> [''macro'', ''wide'']]\<rparr>"]
    by (simp add: example_session_def)
qed

section \<open>History cache\<close>

text \<open>
  Claim C3. Appending puts the new item in front of the cache and keeps the first 12
  entries, so the cache has at most 12 entries afterwards, whatever it held before. After
  13 appends in a row, of the items \<open>items\<close> in this order, the cache holds the last 12 of
  them, the most recent first.
\<close>

theorem history_append_bounded:
  "history_append item prev = take 12 (item # prev) \<and>
   length (history_append item prev) \<le> 12 \<and>
   (length items = 13 \<longrightarrow>
      foldl (\<lambda>h i. history_append i h) prev items = rev (drop 1 items))"
proof -
  have "foldl (\<lambda>h i. history_append i h) prev items = rev (drop 1 items)"
    if len: "length items = 13"
  proof -
    obtain a rest where items: "items = a # rest"
      using len by (cases items) auto
    have "foldl (\<lambda>h i. history_append i h) prev items = take 12 (rev items @ prev)"
      unfolding items by (rule foldl_history_append_Cons)
    also have "\<dots> = take 12 (rev items)"
      using len by simp
    also have "\<dots> = rev (drop 1 items)"
      using len by (simp add: take_rev)
    finally show ?thesis .
  qed
  moreover have "history_append item prev = take 12 (item # prev)"
    by (simp only: history_append_def)
  moreover have "length (history_append item prev) \<le> 12"
    by (simp add: history_append_def)
  ultimately show ?thesis by blast
qed

theorem history_append_bounded_witness:
  "length (map example_item [''a'', ''b'', ''c'', ''d'', ''e'', ''f'', ''g'', ''h'', ''i'', ''j'',
      ''k'', ''l'', ''m'']) = 13 \<and>
   foldl (\<lambda>h i. history_append i h) [example_item ''z'']
     (map example_item [''a'', ''b'', ''c'', ''d'', ''e'', ''f'', ''g'', ''h'', ''i'', ''j'',
        ''k'', ''l'', ''m''])
   = map example_item [''m'', ''l'', ''k'', ''j'', ''i'', ''h'', ''g'', ''f'', ''e'', ''d'',
       ''c'', ''b'']"
proof -
  let ?items = "map example_item [''a'', ''b'', ''c'', ''d'', ''e'', ''f'', ''g'', ''h'', ''i'',
      ''j'', ''k'', ''l'', ''m'']"
  have len: "length ?items = 13"
    by simp
  have "foldl (\<lambda>h i. history_append i h) [example_item ''z''] ?items = rev (drop 1 ?items)"
    using len history_append_bounded [of "example_item ''a''" "[example_item ''z'']" ?items]
    by blast
  also have "\<dots> = map example_item [''m'', ''l'', ''k'', ''j'', ''i'', ''h'', ''g'', ''f'', ''e'',
      ''d'', ''c'', ''b'']"
    by simp
  finally show ?thesis
    using len by (rule conjI [rotated])
qed

section \<open>History selection\<close>

text \<open>
  Claim C4, as amended. Selecting a history item sets the mode to the item's and leaves the
  three error slots \<open>null\<close>. For a design-kit item it sets the product image, the
  generated image and the custom prompt to the item's source, result and prompt; for an
  illustrate item it sets the sub-mode and the illustration image, result and prompt
  likewise. For a retouch item it sets the sub-mode, the portrait and the retouch result
  to the item's source and result and writes no prompt: the two prompt fields and the
  retouch options are as they were.
\<close>

theorem history_select_restores:
  "appMode (handleHistorySelect item s) = mode item \<and>
   error (handleHistorySelect item s) = None \<and>
   creativeError (handleHistorySelect item s) = None \<and>
   upscaleError (handleHistorySelect item s) = None \<and>
   (mode item = design_kit \<longrightarrow>
      productImage (handleHistorySelect item s) = Some (source item) \<and>
      generatedImage (handleHistorySelect item s) = Some (generated item) \<and>
      customPrompt (handleHistorySelect item s) = prompt item) \<and>
   (mode item = creative_studio \<and> creativeSubMode item = Some illustrate \<longrightarrow>
      creativeMode (handleHistorySelect item s) = illustrate \<and>
      illustrationImage (handleHistorySelect item s) = Some (source item) \<and>
      illustrationResultImage (handleHistorySelect item s) = Some (generated item) \<and>
      illustrationCustomPrompt (handleHistorySelect item s) = prompt item) \<and>
   (mode item = creative_studio \<and> creativeSubMode item = Some retouch \<longrightarrow>
      creativeMode (handleHistorySelect item s) = retouch \<and>
      personImage (handleHistorySelect item s) = Some (source item) \<and>
      retouchResultImage (handleHistorySelect item s) = Some (generated item) \<and>
      customPrompt (handleHistorySelect item s) = customPrompt s \<and>
      illustrationCustomPrompt (handleHistorySelect item s) = illustrationCustomPrompt s \<and>
      retouchOptions (handleHistorySelect item s) = retouchOptions s)"
  by (cases "mode item") (simp_all add: handleHistorySelect_def Let_def)

theorem history_select_restores_witness:
  "mode (example_item ''a'') = design_kit \<and>
   productImage (handleHistorySelect (example_item ''a'') example_session)
     = Some (example_file ''a'') \<and>
   generatedImage (handleHistorySelect (example_item ''a'') example_session)
     = Some (example_image ''a'') \<and>
   customPrompt (handleHistorySelect (example_item ''a'') example_session) = ''a'' \<and>
   mode example_illustrate_item = creative_studio \<and>
   creativeSubMode example_illustrate_item = Some illustrate \<and>
   illustrationImage (handleHistorySelect example_illustrate_item example_session)
     = Some (example_file ''cat'') \<and>
   illustrationResultImage (handleHistorySelect example_illustrate_item example_session)
     = Some (example_image ''drawing'') \<and>
   illustrationCustomPrompt (handleHistorySelect example_illustrate_item example_session)
     = ''ink sketch'' \<and>
   mode example_retouch_item = creative_studio \<and>
   creativeSubMode example_retouch_item = Some retouch \<and>
   creativeMode (handleHistorySelect example_retouch_item example_session) = retouch \<and>
   personImage (handleHistorySelect example_retouch_item example_session)
     = Some (example_file ''face'') \<and>
   retouchResultImage (handleHistorySelect example_retouch_item example_session)
     = Some (example_image ''result'') \<and>
   error (handleHistorySelect example_retouch_item (example_session\<lparr>error := Some ''old''\<rparr>))
     = None"
  using history_select_restores [of "example_item ''a''" example_session]
    history_select_restores [of example_illustrate_item example_session]
    history_select_restores [of example_retouch_item example_session]
    history_select_restores [of example_retouch_item "example_session\<lparr>error := Some ''old''\<rparr>"]
  by (simp add: example_item_def example_illustrate_item_def example_retouch_item_def)

text \<open>
  The claim as stated fails on a retouch item: after the selection no text field of the
  session holds the item's prompt.
\<close>

theorem history_select_retouch_prompt_counterexample:
  "mode example_retouch_item = creative_studio \<and>
   creativeSubMode example_retouch_item = Some retouch \<and>
   customPrompt (handleHistorySelect example_retouch_item example_session)
     \<noteq> prompt example_retouch_item \<and>
   illustrationCustomPrompt (handleHistorySelect example_retouch_item example_session)
     \<noteq> prompt example_retouch_item \<and>
   artistCommand (retouchOptions (handleHistorySelect example_retouch_item example_session))
     \<noteq> prompt example_retouch_item \<and>
   selectedEnvironment (handleHistorySelect example_retouch_item example_session)
     \<noteq> prompt example_retouch_item"
  by (simp add: handleHistorySelect_def example_retouch_item_def example_session_def
      example_options_def)

section \<open>Failed preconditions\<close>

text \<open>
  Claim C5, as amended. A run of composite, illustration, smart-retouch or environment
  generation that is offline or has no source image writes its message to the pipeline's
  error slot, changes nothing else and has no effect at all, so it calls no service. The
  two prompt pipelines with a required image do the same when that image is absent. The
  upscale and the vector download, when their image is absent, call no service either,
  but write no message: upscale only closes its menu, the download leaves the session as
  it was.
\<close>

theorem precondition_failure_no_call:
  "(\<not> isOnline s \<or> productImage s = None \<longrightarrow>
      handleDesignKitGeneration sv s =
        (s\<lparr>error := Some (if isOnline s then ''Please upload a product image first.''
            else ''You are offline. Please check your internet connection.'')\<rparr>, [])) \<and>
   (\<not> isOnline s \<or> illustrationImage s = None \<longrightarrow>
      handleGenerateIllustration c sv s =
        (s\<lparr>creativeError := Some (if \<not> isOnline s then ''You are offline.''
            else ''Please upload an image to illustrate.'')\<rparr>, [])) \<and>
   (\<not> isOnline s \<or> personImage s = None \<longrightarrow>
      handleSmartRetouch sv s =
        (s\<lparr>creativeError := Some (if \<not> isOnline s then ''You are offline.''
            else ''Please upload a portrait to retouch.'')\<rparr>, [])) \<and>
   (\<not> isOnline s \<or> personImage s = None \<longrightarrow>
      handleEnvironmentGeneration sv s =
        (s\<lparr>creativeError := Some (if \<not> isOnline s then ''You are offline.''
            else ''Please upload a portrait.'')\<rparr>, [])) \<and>
   (productImage s = None \<longrightarrow>
      handleGenerateDKPrompt sv s =
        (s\<lparr>error := Some ''Please upload a product image to generate prompt suggestions.''\<rparr>,
         [])) \<and>
   (creativeMode s \<noteq> illustrate \<or> illustrationImage s = None \<longrightarrow>
      handleGenerateCreativePrompts sv s =
        (s\<lparr>creativeError := Some ''Please upload a base image first.''\<rparr>, [])) \<and>
   (imageToUpscale s = None \<or> sourceImage s = None \<longrightarrow>
      handleUpscale sv target s = (s\<lparr>isUpscaleMenuOpen := False\<rparr>, [])) \<and>
   (illustrationResultImage s = None \<longrightarrow> handleDownloadVector sv s = (s, []))"
proof -
  have dk: "handleDesignKitGeneration sv s =
        (s\<lparr>error := Some (if isOnline s then ''Please upload a product image first.''
            else ''You are offline. Please check your internet connection.'')\<rparr>, [])"
    if "\<not> isOnline s \<or> productImage s = None"
    using that by (auto simp: handleDesignKitGeneration_def split: option.splits)
  have il: "handleGenerateIllustration c sv s =
        (s\<lparr>creativeError := Some (if \<not> isOnline s then ''You are offline.''
            else ''Please upload an image to illustrate.'')\<rparr>, [])"
    if "\<not> isOnline s \<or> illustrationImage s = None"
    using that by (auto simp: handleGenerateIllustration_def split: option.splits)
  have sr: "handleSmartRetouch sv s =
        (s\<lparr>creativeError := Some (if \<not> isOnline s then ''You are offline.''
            else ''Please upload a portrait to retouch.'')\<rparr>, [])"
    if "\<not> isOnline s \<or> personImage s = None"
    using that by (auto simp: handleSmartRetouch_def split: option.splits)
  have en: "handleEnvironmentGeneration sv s =
        (s\<lparr>creativeError := Some (if \<not> isOnline s then ''You are offline.''
            else ''Please upload a portrait.'')\<rparr>, [])"
    if "\<not> isOnline s \<or> personImage s = None"
    using that by (auto simp: handleEnvironmentGeneration_def split: option.splits)
  have dp: "handleGenerateDKPrompt sv s =
        (s\<lparr>error := Some ''Please upload a product image to generate prompt suggestions.''\<rparr>,
         [])"
    if "productImage s = None"
    using that by (simp add: handleGenerateDKPrompt_def)
  have cp: "handleGenerateCreativePrompts sv s =
        (s\<lparr>creativeError := Some ''Please upload a base image first.''\<rparr>, [])"
    if "creativeMode s \<noteq> illustrate \<or> illustrationImage s = None"
    using that by (auto simp: handleGenerateCreativePrompts_def)
  have up: "handleUpscale sv target s = (s\<lparr>isUpscaleMenuOpen := False\<rparr>, [])"
    if "imageToUpscale s = None \<or> sourceImage s = None"
    using that by (auto simp: handleUpscale_def Let_def split: option.splits)
  have ve: "handleDownloadVector sv s = (s, [])" if "illustrationResultImage s = None"
    using that by (simp add: handleDownloadVector_def)
  show ?thesis
    using dk il sr en dp cp up ve by blast
qed

text \<open>
  Offline and with no image at all, every hypothesis holds at once; online with no
  product image the composite generation asks for the image.
\<close>

theorem precondition_failure_no_call_witness:
  "\<not> isOnline example_offline_session \<and>
   productImage example_offline_session = None \<and>
   illustrationImage example_offline_session = None \<and>
   personImage example_offline_session = None \<and>
   imageToUpscale example_offline_session = None \<and>
   illustrationResultImage example_offline_session = None \<and>
   handleDesignKitGeneration example_services example_offline_session =
     (example_offline_session
        \<lparr>error := Some ''You are offline. Please check your internet connection.''\<rparr>, []) \<and>
   handleGenerateIllustration example_constants example_services example_offline_session =
     (example_offline_session\<lparr>creativeError := Some ''You are offline.''\<rparr>, []) \<and>
   handleSmartRetouch example_services example_offline_session =
     (example_offline_session\<lparr>creativeError := Some ''You are offline.''\<rparr>, []) \<and>
   handleEnvironmentGeneration example_services example_offline_session =
     (example_offline_session\<lparr>creativeError := Some ''You are offline.''\<rparr>, []) \<and>
   handleGenerateDKPrompt example_services example_offline_session =
     (example_offline_session
        \<lparr>error := Some ''Please upload a product image to generate prompt suggestions.''\<rparr>,
      []) \<and>
   handleGenerateCreativePrompts example_services example_offline_session =
     (example_offline_session\<lparr>creativeError := Some ''Please upload a base image first.''\<rparr>,
      []) \<and>
   handleUpscale example_services target_hd example_offline_session =
     (example_offline_session\<lparr>isUpscaleMenuOpen := False\<rparr>, []) \<and>
   handleDownloadVector example_services example_offline_session =
     (example_offline_session, []) \<and>
   isOnline example_session \<and>
   productImage example_session = None \<and>
   handleDesignKitGeneration example_services example_session =
     (example_session\<lparr>error := Some ''Please upload a product image first.''\<rparr>, [])"
proof -
  have off: "\<not> isOnline example_offline_session"
    "productImage example_offline_session = None"
    "illustrationImage example_offline_session = None"
    "personImage example_offline_session = None"
    "imageToUpscale example_offline_session = None"
    "illustrationResultImage example_offline_session = None"
    by (simp_all add: example_offline_session_def example_session_def imageToUpscale_def)
  have on: "isOnline example_session" "productImage example_session = None"
    by (simp_all add: example_session_def)
  show ?thesis
    using off on
      precondition_failure_no_call [of example_offline_session example_services
        example_constants target_hd]
      precondition_failure_no_call [of example_session example_services
        example_constants target_hd]
    by simp
qed

text \<open>
  The claim as stated fails on the upscale pipeline: with no image to upscale the run
  returns with every error slot still \<open>null\<close>.
\<close>

theorem upscale_precondition_silent_counterexample:
  "imageToUpscale example_session = None \<and>
   snd (handleUpscale example_services target_4k example_session) = [] \<and>
   upscaleError (fst (handleUpscale example_services target_4k example_session)) = None \<and>
   error (fst (handleUpscale example_services target_4k example_session)) = None \<and>
   creativeError (fst (handleUpscale example_services target_4k example_session)) = None"
  by (simp add: handleUpscale_def imageToUpscale_def sourceImage_def example_session_def)

section \<open>Error slots when a run begins\<close>

text \<open>What settling a run does to the error slots of the other pipelines: nothing.\<close>

lemma design_kit_settle_frame:
  "creativeError (fst (handleDesignKitGeneration_settle now product custom out s))
     = creativeError s \<and>
   upscaleError (fst (handleDesignKitGeneration_settle now product custom out s))
     = upscaleError s"
  by (simp add: handleDesignKitGeneration_settle_def Let_def split: outcome.splits option.splits)

lemma illustration_settle_frame:
  "error (fst (handleGenerateIllustration_settle now img custom out s)) = error s \<and>
   upscaleError (fst (handleGenerateIllustration_settle now img custom out s)) = upscaleError s"
  by (simp add: handleGenerateIllustration_settle_def Let_def split: outcome.splits option.splits)

lemma smart_retouch_settle_frame:
  "error (fst (handleSmartRetouch_settle now person out s)) = error s \<and>
   upscaleError (fst (handleSmartRetouch_settle now person out s)) = upscaleError s"
  by (simp add: handleSmartRetouch_settle_def Let_def split: outcome.splits option.splits)

lemma environment_settle_frame:
  "error (fst (handleEnvironmentGeneration_settle now person env out s)) = error s \<and>
   upscaleError (fst (handleEnvironmentGeneration_settle now person env out s)) = upscaleError s"
  by (simp add: handleEnvironmentGeneration_settle_def Let_def
      split: outcome.splits option.splits)

text \<open>
  Claim C6, as amended. The writes with which a run begins clear the pipeline's own error
  slot. The creative pipelines (illustration, smart retouch, environment, vector download,
  creative and retouch prompts) clear \<open>creativeError\<close> and leave \<open>error\<close> and
  \<open>upscaleError\<close> as they were; the design-kit prompt pipeline clears \<open>error\<close> and leaves
  the other two. Design-kit generation clears \<open>error\<close> and \<open>upscaleError\<close> and leaves
  \<open>creativeError\<close>; upscale clears all three slots. Over a whole run, whatever the
  service answers, the three creative generation pipelines leave \<open>error\<close> and
  \<open>upscaleError\<close> as they were and design-kit generation leaves \<open>creativeError\<close>.
\<close>

theorem begin_clears_error_slots:
  "error (handleDesignKitGeneration_begin s) = None \<and>
   upscaleError (handleDesignKitGeneration_begin s) = None \<and>
   creativeError (handleDesignKitGeneration_begin s) = creativeError s \<and>
   error (handleGenerateDKPrompt_begin s) = None \<and>
   creativeError (handleGenerateDKPrompt_begin s) = creativeError s \<and>
   upscaleError (handleGenerateDKPrompt_begin s) = upscaleError s \<and>
   creativeError (handleGenerateCreativePrompts_begin s) = None \<and>
   error (handleGenerateCreativePrompts_begin s) = error s \<and>
   upscaleError (handleGenerateCreativePrompts_begin s) = upscaleError s \<and>
   creativeError (handleGenerateIllustration_begin s) = None \<and>
   error (handleGenerateIllustration_begin s) = error s \<and>
   upscaleError (handleGenerateIllustration_begin s) = upscaleError s \<and>
   creativeError (handleDownloadVector_begin s) = None \<and>
   error (handleDownloadVector_begin s) = error s \<and>
   upscaleError (handleDownloadVector_begin s) = upscaleError s \<and>
   creativeError (handleSmartRetouch_begin s) = None \<and>
   error (handleSmartRetouch_begin s) = error s \<and>
   upscaleError (handleSmartRetouch_begin s) = upscaleError s \<and>
   creativeError (handleEnvironmentGeneration_begin s) = None \<and>
   error (handleEnvironmentGeneration_begin s) = error s \<and>
   upscaleError (handleEnvironmentGeneration_begin s) = upscaleError s \<and>
   creativeError (handleGenerateRetouchPrompts_begin s) = None \<and>
   error (handleGenerateRetouchPrompts_begin s) = error s \<and>
   upscaleError (handleGenerateRetouchPrompts_begin s) = upscaleError s \<and>
   upscaleError (handleUpscale_begin target s) = None \<and>
   error (handleUpscale_begin target s) = None \<and>
   creativeError (handleUpscale_begin target s) = None \<and>
   error (fst (handleGenerateIllustration c sv s)) = error s \<and>
   upscaleError (fst (handleGenerateIllustration c sv s)) = upscaleError s \<and>
   error (fst (handleSmartRetouch sv s)) = error s \<and>
   upscaleError (fst (handleSmartRetouch sv s)) = upscaleError s \<and>
   error (fst (handleEnvironmentGeneration sv s)) = error s \<and>
   upscaleError (fst (handleEnvironmentGeneration sv s)) = upscaleError s \<and>
   creativeError (fst (handleDesignKitGeneration sv s)) = creativeError s"
proof -
  have begins:
    "error (handleDesignKitGeneration_begin s) = None \<and>
     upscaleError (handleDesignKitGeneration_begin s) = None \<and>
     creativeError (handleDesignKitGeneration_begin s) = creativeError s \<and>
     error (handleGenerateDKPrompt_begin s) = None \<and>
     creativeError (handleGenerateDKPrompt_begin s) = creativeError s \<and>
     upscaleError (handleGenerateDKPrompt_begin s) = upscaleError s \<and>
     creativeError (handleGenerateCreativePrompts_begin s) = None \<and>
     error (handleGenerateCreativePrompts_begin s) = error s \<and>
     upscaleError (handleGenerateCreativePrompts_begin s) = upscaleError s \<and>
     creativeError (handleGenerateIllustration_begin s) = None \<and>
     error (handleGenerateIllustration_begin s) = error s \<and>
     upscaleError (handleGenerateIllustration_begin s) = upscaleError s \<and>
     creativeError (handleDownloadVector_begin s) = None \<and>
     error (handleDownloadVector_begin s) = error s \<and>
     upscaleError (handleDownloadVector_begin s) = upscaleError s \<and>
     creativeError (handleSmartRetouch_begin s) = None \<and>
     error (handleSmartRetouch_begin s) = error s \<and>
     upscaleError (handleSmartRetouch_begin s) = upscaleError s \<and>
     creativeError (handleEnvironmentGeneration_begin s) = None \<and>
     error (handleEnvironmentGeneration_begin s) = error s \<and>
     upscaleError (handleEnvironmentGeneration_begin s) = upscaleError s \<and>
     creativeError (handleGenerateRetouchPrompts_begin s) = None \<and>
     error (handleGenerateRetouchPrompts_begin s) = error s \<and>
     upscaleError (handleGenerateRetouchPrompts_begin s) = upscaleError s \<and>
     upscaleError (handleUpscale_begin target s) = None \<and>
     error (handleUpscale_begin target s) = None \<and>
     creativeError (handleUpscale_begin target s) = None"
    by (simp add: handleDesignKitGeneration_begin_def handleGenerateDKPrompt_begin_def
        handleGenerateCreativePrompts_begin_def handleGenerateIllustration_begin_def
        handleDownloadVector_begin_def handleSmartRetouch_begin_def
        handleEnvironmentGeneration_begin_def handleGenerateRetouchPrompts_begin_def
        handleUpscale_begin_def)
  have il: "error (fst (handleGenerateIllustration c sv s)) = error s \<and>
     upscaleError (fst (handleGenerateIllustration c sv s)) = upscaleError s"
    by (simp add: handleGenerateIllustration_def illustration_settle_frame
        handleGenerateIllustration_begin_def Let_def case_prod_beta split: option.splits)
  have sr: "error (fst (handleSmartRetouch sv s)) = error s \<and>
     upscaleError (fst (handleSmartRetouch sv s)) = upscaleError s"
    by (simp add: handleSmartRetouch_def smart_retouch_settle_frame
        handleSmartRetouch_begin_def Let_def case_prod_beta split: option.splits)
  have en: "error (fst (handleEnvironmentGeneration sv s)) = error s \<and>
     upscaleError (fst (handleEnvironmentGeneration sv s)) = upscaleError s"
    by (simp add: handleEnvironmentGeneration_def environment_settle_frame
        handleEnvironmentGeneration_begin_def Let_def case_prod_beta split: option.splits)
  have dk: "creativeError (fst (handleDesignKitGeneration sv s)) = creativeError s"
    by (simp add: handleDesignKitGeneration_def design_kit_settle_frame
        handleDesignKitGeneration_begin_def Let_def case_prod_beta split: option.splits)
  show ?thesis
    using begins il sr en dk by (simp only: simp_thms)
qed

text \<open>
  The claim as stated fails on design-kit generation: a run that passes its precondition
  clears the error of the upscale pipeline, at its beginning and so at its end.
\<close>

theorem design_kit_clears_upscale_error_counterexample:
  "isOnline (example_product_session\<lparr>upscaleError := Some ''The AI could not upscale the image.''\<rparr>) \<and>
   productImage (example_product_session\<lparr>upscaleError := Some ''The AI could not upscale the image.''\<rparr>)
     = Some (example_file ''shoe'') \<and>
   upscaleError (handleDesignKitGeneration_begin
       (example_product_session\<lparr>upscaleError := Some ''The AI could not upscale the image.''\<rparr>))
     = None \<and>
   upscaleError (fst (handleDesignKitGeneration example_services
       (example_product_session\<lparr>upscaleError := Some ''The AI could not upscale the image.''\<rparr>)))
     = None \<and>
   snd (handleDesignKitGeneration example_services
       (example_product_session\<lparr>upscaleError := Some ''The AI could not upscale the image.''\<rparr>))
     = [Invoke GenerateImage]"
  by (simp add: handleDesignKitGeneration_def handleDesignKitGeneration_begin_def
      handleDesignKitGeneration_settle_def example_product_session_def example_session_def
      example_services_def Let_def)

section \<open>What a successful upscale writes\<close>

text \<open>
  Claim C8, as amended. When the image to upscale \<open>img\<close> and its source \<open>src\<close> are
  present and the service fulfils with the image \<open>up\<close>, the run calls the service once,
  writes \<open>up\<close> into the result field the image was read from (the generated image in the
  design-kit mode, the retouch result or the illustration result in the creative studio)
  and leaves the other two result fields as they were, and appends one history item: its
  id ends in \<open>-upscaled-\<close> and the target, its source is \<open>src\<close>, its result \<open>up\<close>, and its
  prompt is the custom prompt in the design-kit mode and \<open>Upscaled to HD\<close> or
  \<open>Upscaled to 4K\<close> in the creative studio.
\<close>

theorem upscale_success:
  assumes img: "imageToUpscale s = Some img"
    and src: "sourceImage s = Some src"
    and out: "upscaleImage sv img target = Fulfilled (Some up)"
  shows "snd (handleUpscale sv target s) = [Invoke UpscaleImage] \<and>
    imageToUpscale (fst (handleUpscale sv target s)) = Some up \<and>
    (appMode s = design_kit \<longrightarrow>
       generatedImage (fst (handleUpscale sv target s)) = Some up \<and>
       retouchResultImage (fst (handleUpscale sv target s)) = retouchResultImage s \<and>
       illustrationResultImage (fst (handleUpscale sv target s)) = illustrationResultImage s) \<and>
    (appMode s = creative_studio \<and> creativeMode s = retouch \<longrightarrow>
       retouchResultImage (fst (handleUpscale sv target s)) = Some up \<and>
       generatedImage (fst (handleUpscale sv target s)) = generatedImage s \<and>
       illustrationResultImage (fst (handleUpscale sv target s)) = illustrationResultImage s) \<and>
    (appMode s = creative_studio \<and> creativeMode s = illustrate \<longrightarrow>
       illustrationResultImage (fst (handleUpscale sv target s)) = Some up \<and>
       generatedImage (fst (handleUpscale sv target s)) = generatedImage s \<and>
       retouchResultImage (fst (handleUpscale sv target s)) = retouchResultImage s) \<and>
    generationHistory (fst (handleUpscale sv target s)) =
      history_append
        \<lparr>id_item = toISOString_now sv @ ''-upscaled-'' @ target_string target,
         generated = up,
         source = src,
         prompt = (if appMode s = design_kit then customPrompt s
                   else ''Upscaled to '' @ toUpperCase target),
         mode = appMode s,
         creativeSubMode = (if appMode s = creative_studio then Some (creativeMode s) else None)\<rparr>
        (generationHistory s) \<and>
    toUpperCase target_hd = ''HD'' \<and> toUpperCase target_4k = ''4K''"
proof (cases "appMode s")
  case design_kit
  then show ?thesis
    using assms
    by (simp add: handleUpscale_def handleUpscale_settle_def handleUpscale_begin_def
        imageToUpscale_def sourceImage_def toUpperCase_def Let_def)
next
  case creative_studio
  then show ?thesis
    using assms
    by (cases "creativeMode s")
       (simp_all add: handleUpscale_def handleUpscale_settle_def handleUpscale_begin_def
        imageToUpscale_def sourceImage_def toUpperCase_def Let_def)
qed

theorem upscale_success_witness:
  "imageToUpscale example_portrait_session = Some (example_image ''result'') \<and>
   sourceImage example_portrait_session = Some (example_file ''face'') \<and>
   upscaleImage example_services (example_image ''result'') target_4k
     = Fulfilled (Some (example_image ''upscaled'')) \<and>
   appMode example_portrait_session = creative_studio \<and>
   creativeMode example_portrait_session = retouch \<and>
   snd (handleUpscale example_services target_4k example_portrait_session)
     = [Invoke UpscaleImage] \<and>
   retouchResultImage (fst (handleUpscale example_services target_4k example_portrait_session))
     = Some (example_image ''upscaled'') \<and>
   generationHistory (fst (handleUpscale example_services target_4k example_portrait_session))
     = [\<lparr>id_item = ''2025-01-01T00:00:00.000Z-upscaled-4k'',
         generated = example_image ''upscaled'',
         source = example_file ''face'',
         prompt = ''Upscaled to 4K'',
         mode = creative_studio,
         creativeSubMode = Some retouch\<rparr>]"
proof -
  have img: "imageToUpscale example_portrait_session = Some (example_image ''result'')"
    by (simp add: imageToUpscale_def example_portrait_session_def example_session_def)
  have src: "sourceImage example_portrait_session = Some (example_file ''face'')"
    by (simp add: sourceImage_def example_portrait_session_def example_session_def)
  have out: "upscaleImage example_services (example_image ''result'') target_4k
      = Fulfilled (Some (example_image ''upscaled''))"
    by (simp add: example_services_def)
  have modes: "appMode example_portrait_session = creative_studio"
    "creativeMode example_portrait_session = retouch"
    "generationHistory example_portrait_session = []"
    "toISOString_now example_services = ''2025-01-01T00:00:00.000Z''"
    by (simp_all add: example_portrait_session_def example_session_def example_services_def)
  show ?thesis
    using img src out modes upscale_success [OF img src out]
    by (simp add: history_append_def target_string_def)
qed

text \<open>
  The claim as stated fails in the design-kit mode: the history item of the upscale
  carries the custom prompt, not a string that names the upscale.
\<close>

theorem upscale_design_kit_prompt_counterexample:
  "appMode example_product_session = design_kit \<and>
   imageToUpscale example_product_session = Some (example_image ''composite'') \<and>
   generatedImage (fst (handleUpscale example_services target_4k example_product_session))
     = Some (example_image ''upscaled'') \<and>
   map prompt (generationHistory
       (fst (handleUpscale example_services target_4k example_product_session)))
     = [''red shoe''] \<and>
   ''red shoe'' \<noteq> ''Upscaled to 4K''"
  by (simp add: handleUpscale_def handleUpscale_settle_def handleUpscale_begin_def
      imageToUpscale_def sourceImage_def history_append_def example_product_session_def
      example_session_def example_services_def Let_def)

section \<open>The selection invariant under toggle and analysis\<close>

lemma filter_other_nonempty:
  assumes "distinct (map f S)" and "1 < length S"
  shows "filter (\<lambda>q. f q \<noteq> x) S \<noteq> []"
proof -
  obtain a b rest where S: "S = a # b # rest"
    using assms(2) by (cases S; cases "tl S") auto
  have "f a \<noteq> f b"
    using assms(1) S by simp
  then have "f a \<noteq> x \<or> f b \<noteq> x"
    by auto
  then show ?thesis
    using S by auto
qed

text \<open>
  The toggle of any preset keeps a well-formed selection well formed, in every table that
  has a sentinel.
\<close>

lemma toggle_preserves_selection_ok:
  assumes sentinel: "find (\<lambda>p. id_preset p = ''none'') presets = Some N"
    and ok: "selection_ok S"
  shows "\<exists>S'. createToggleHandler presets p S = Some S' \<and> selection_ok S'"
proof -
  have N: "id_preset N = ''none''"
    using sentinel by (auto simp: find_Some_iff)
  have single: "selection_ok [N]"
    using N by (simp add: selection_ok_def)
  show ?thesis
  proof (cases "id_preset p = ''none''")
    case True
    then show ?thesis
      using sentinel single by (simp add: createToggleHandler_def Let_def)
  next
    case notnone: False
    show ?thesis
    proof (cases "list_ex (\<lambda>q. id_preset q = id_preset p) S")
      case selected: True
      show ?thesis
      proof (cases "length S = 1")
        case True
        then show ?thesis
          using sentinel single notnone selected by (simp add: createToggleHandler_def Let_def)
      next
        case False
        then have long: "1 < length S"
          using selected by (cases S) (auto simp: list_ex_iff)
        then have "map id_preset S \<noteq> [''none'']"
          by auto
        then have S: "distinct (map id_preset S)" "\<not> list_ex (\<lambda>q. id_preset q = ''none'') S"
          using ok by (auto simp: selection_ok_def)
        let ?S' = "filter (\<lambda>q. id_preset q \<noteq> id_preset p) S"
        have "?S' \<noteq> []"
          using S(1) long by (rule filter_other_nonempty)
        moreover have "distinct (map id_preset ?S')"
          using S(1) by (simp add: distinct_map_filter)
        moreover have "\<not> list_ex (\<lambda>q. id_preset q = ''none'') ?S'"
          using S(2) by (auto simp: list_ex_iff)
        ultimately have "selection_ok ?S'"
          by (simp add: selection_ok_def)
        then show ?thesis
          using notnone selected False by (simp add: createToggleHandler_def Let_def)
      qed
    next
      case absent: False
      let ?S' = "filter (\<lambda>q. id_preset q \<noteq> ''none'') S @ [p]"
      have d: "distinct (map id_preset S)"
        using ok by (auto simp: selection_ok_def)
      have "distinct (map id_preset ?S')"
        using d absent by (auto simp: distinct_map_filter list_ex_iff)
      moreover have "\<not> list_ex (\<lambda>q. id_preset q = ''none'') ?S'"
        using notnone by (auto simp: list_ex_iff)
      ultimately have "selection_ok ?S'"
        by (simp add: selection_ok_def)
      then show ?thesis
        using notnone absent by (simp add: createToggleHandler_def Let_def)
    qed
  qed
qed

text \<open>
  Claim C2 fails on the code. With a product and a reference image and the camera
  selection \<open>[none]\<close>, the analysis answers \<open>camera: [telephoto]\<close>, an id of no camera in
  the table. The effect tests the length of the suggestion, not of what the filter keeps,
  and replaces the camera selection by the empty list.
\<close>

theorem analysis_empties_selection:
  "selection_ok (selectedCameras example_pair_session) \<and>
   snd (runAnalysis example_constants example_services example_pair_session)
     = [Invoke AnalyzeForCompositeSuggestions] \<and>
   selectedCameras (fst (runAnalysis example_constants example_services example_pair_session))
     = [] \<and>
   \<not> selection_ok
       (selectedCameras (fst (runAnalysis example_constants example_services
          example_pair_session)))"
  by (simp add: runAnalysis_def runAnalysis_begin_def runAnalysis_settle_def
      replace_if_suggested_def selection_ok_def example_defs)

end
